theory Spec2Isabelle
  imports Main "HOL-Library.Word" "HOL-Library.Monad_Syntax"
begin

unbundle bit_operations_syntax

section \<open>Bytes, slices and the encoding package\<close>

text \<open>
  A Go \<open>byte\<close> is an 8-bit word and a \<open>[]byte\<close> a list of them. A Go string literal
  converted with \<open>[]byte("...")\<close> is the list of its (ASCII) character codes.
\<close>

type_synonym byte = "8 word"
type_synonym bytes = "byte list"

definition bytes_of :: "string \<Rightarrow> bytes" where
  "bytes_of s = map (\<lambda>c. of_nat (of_char c)) s"

text \<open>
  Modelled from the spec: the package \<open>internal/encoding\<close> (I2OSP, OS2IP, EncodeVector,
  DecodeVector, Concat) is not among the source files. Section 4.2 of the specification
  defines \<open>I2OSP(n, w)\<close> as the big-endian \<open>w\<close>-byte encoding of the non-negative \<open>n\<close>,
  failing if \<open>n \<ge> 256^w\<close>; \<open>EncodeVector(v) = I2OSP(len(v), 2) || v\<close> (maximal length
  65535); \<open>Concat\<close> is plain byte concatenation. \<open>None\<close> is the failure.
\<close>

fun be_bytes :: "nat \<Rightarrow> nat \<Rightarrow> bytes" where
  "be_bytes n 0 = []"
| "be_bytes n (Suc w) = be_bytes (n div 256) w @ [of_nat (n mod 256)]"

definition I2OSP :: "nat \<Rightarrow> nat \<Rightarrow> bytes option" where
  "I2OSP n w = (if n < 256 ^ w then Some (be_bytes n w) else None)"

definition OS2IP :: "bytes \<Rightarrow> nat" where
  "OS2IP bs = foldl (\<lambda>acc b. acc * 256 + unat b) 0 bs"

definition EncodeVector :: "bytes \<Rightarrow> bytes option" where
  "EncodeVector v = (case I2OSP (length v) 2 of None \<Rightarrow> None | Some h \<Rightarrow> Some (h @ v))"

definition Concat :: "bytes \<Rightarrow> bytes \<Rightarrow> bytes" where
  "Concat a b = a @ b"

text \<open>
  Modelled from the spec: \<open>DecodeVector\<close> is the reader of \<open>EncodeVector\<close>. Its caller
  in \<open>DeserializeConfiguration\<close> receives three results (data, offset, error) and drops
  the offset, so the reader takes the two-byte length, then that many bytes, and reports
  where the data ended; bytes after that offset are left to the caller.
\<close>

datatype vector_error = errHeaderLength | errTotalLength

definition DecodeVector :: "bytes \<Rightarrow> vector_error + (bytes \<times> nat)" where
  "DecodeVector inp =
     (if length inp < 2 then Inl errHeaderLength
      else let dataLen = OS2IP (take 2 inp); offset = 2 + dataLen
           in if length inp < offset then Inl errTotalLength
              else Inr (take dataLen (drop 2 inp), offset))"

section \<open>The public configuration\<close>

text \<open>
  \<open>Group\<close> is declared \<open>type Group byte\<close>; \<open>crypto.Hash\<close> is Go's \<open>uint\<close>, read here as a
  natural number, and the conversion \<open>byte(h)\<close> keeps its low eight bits (\<open>of_nat\<close> into
  an 8-bit word). The KSF identifier is a single byte. A nil and an empty \<open>Context\<close> are
  both the empty list: every function below only reads its length and its bytes.
\<close>

type_synonym Group = byte
type_synonym crypto_Hash = nat
type_synonym ksf_Identifier = byte

record Configuration =
  Context :: bytes
  KDF :: crypto_Hash
  MAC :: crypto_Hash
  Hash :: crypto_Hash
  OPRF :: Group
  KSF :: ksf_Identifier
  AKE :: Group

definition confLength :: nat where
  "confLength = 6"

definition NonceLength :: nat where
  "NonceLength = 32"

datatype config_error =
    errInvalidKDFid | errInvalidMACid | errInvalidHASHid
  | errInvalidKSFid | errInvalidOPRFid | errInvalidAKEid
  | ErrConfigurationInvalidLength
  | errDecodingContext vector_error

text \<open>
  The primitives of the external libraries (\<open>bytemare/crypto\<close>: hash, ksf, group) and the
  table \<open>encoding.PointLength\<close> are parameters of the model: which hash, KSF and group
  identifiers are available, the output size of a hash, the point length of a group, and
  \<open>KDF.Expand(key, info, length)\<close> (HKDF-Expand) for the hash the KDF was made from.
\<close>

record primitives =
  hash_Available :: "crypto_Hash \<Rightarrow> bool"
  ksf_Available :: "ksf_Identifier \<Rightarrow> bool"
  group_Available :: "Group \<Rightarrow> bool"
  hash_Size :: "crypto_Hash \<Rightarrow> nat"
  PointLength :: "Group \<Rightarrow> nat"
  kdf_Expand :: "crypto_Hash \<Rightarrow> bytes \<Rightarrow> bytes \<Rightarrow> nat \<Rightarrow> bytes"

subsection \<open>The OPRF ciphersuite registry (oprf.go)\<close>

text \<open>
  The group identifiers are constants of the external group package; the specification's
  registry gives their values (Ristretto255-SHA512 = 1, P256-SHA256 = 3, P384-SHA384 = 4,
  P521-SHA512 = 5). The hash identifiers are those of Go's \<open>crypto\<close> package.
\<close>

definition SHA256 :: crypto_Hash where "SHA256 = 5"
definition SHA384 :: crypto_Hash where "SHA384 = 6"
definition SHA512 :: crypto_Hash where "SHA512 = 7"

definition RistrettoSha512 :: Group where "RistrettoSha512 = 1"
definition P256Sha256 :: Group where "P256Sha256 = 3"
definition P384Sha384 :: Group where "P384Sha384 = 4"
definition P521Sha512 :: Group where "P521Sha512 = 5"

definition register :: "Group \<Rightarrow> crypto_Hash \<Rightarrow> (Group \<rightharpoonup> crypto_Hash) \<Rightarrow> (Group \<rightharpoonup> crypto_Hash)" where
  "register c h m = m(c \<mapsto> h)"

text \<open>The map \<open>suiteToHash\<close> after \<open>init()\<close> has run its four registrations.\<close>

definition suiteToHash :: "Group \<rightharpoonup> crypto_Hash" where
  "suiteToHash =
     register P521Sha512 SHA512
       (register P384Sha384 SHA384
         (register P256Sha256 SHA256
           (register RistrettoSha512 SHA512 Map.empty)))"

definition Ciphersuite_Available :: "Group \<Rightarrow> bool" where
  "Ciphersuite_Available c = (case suiteToHash c of None \<Rightarrow> False | Some _ \<Rightarrow> True)"

subsection \<open>verify, toInternal, Serialize, DeserializeConfiguration, GetFakeEnvelope\<close>

text \<open>\<open>verify\<close> returns the error of the first non-compliant parameter, \<open>None\<close> for nil.\<close>

definition verify :: "primitives \<Rightarrow> Configuration \<Rightarrow> config_error option" where
  "verify prim c =
     (if \<not> hash_Available prim (KDF c) then Some errInvalidKDFid
      else if \<not> hash_Available prim (MAC c) then Some errInvalidMACid
      else if \<not> hash_Available prim (Hash c) then Some errInvalidHASHid
      else if KSF c \<noteq> 0 \<and> \<not> ksf_Available prim (KSF c) then Some errInvalidKSFid
      else if \<not> Ciphersuite_Available (OPRF c) then Some errInvalidOPRFid
      else if \<not> group_Available prim (AKE c) then Some errInvalidAKEid
      else None)"

text \<open>
  The internal parameters. The wrappers \<open>NewKDF\<close>, \<open>NewMac\<close>, \<open>NewHash\<close>, \<open>NewKSF\<close> hold the
  identifier they were made from; \<open>MAC.Size()\<close> and \<open>Hash.Size()\<close> are \<open>hash_Size\<close> of it.
\<close>

record Parameters =
  p_KDF :: crypto_Hash
  p_MAC :: crypto_Hash
  p_Hash :: crypto_Hash
  p_KSF :: ksf_Identifier
  NonceLen :: nat
  EnvelopeSize :: nat
  OPRFPointLength :: nat
  AkePointLength :: nat
  p_Group :: Group
  p_OPRF :: Group
  p_Context :: bytes

definition toInternal :: "primitives \<Rightarrow> Configuration \<Rightarrow> config_error + Parameters" where
  "toInternal prim c =
     (case verify prim c of
        Some err \<Rightarrow> Inl err
      | None \<Rightarrow>
          let g = AKE c;
              ip = \<lparr> p_KDF = KDF c, p_MAC = MAC c, p_Hash = Hash c, p_KSF = KSF c,
                     NonceLen = NonceLength, EnvelopeSize = 0,
                     OPRFPointLength = PointLength prim (OPRF c),
                     AkePointLength = PointLength prim g,
                     p_Group = g, p_OPRF = OPRF c, p_Context = Context c \<rparr>
          in Inr (ip\<lparr> EnvelopeSize := NonceLen ip + hash_Size prim (p_MAC ip) \<rparr>))"

text \<open>\<open>Serialize\<close> fails (\<open>None\<close>) only where \<open>EncodeVector\<close> does.\<close>

definition Serialize :: "Configuration \<Rightarrow> bytes option" where
  "Serialize c =
     (let b = [OPRF c, of_nat (KDF c), of_nat (MAC c), of_nat (Hash c), KSF c, AKE c]
      in case EncodeVector (Context c) of None \<Rightarrow> None | Some v \<Rightarrow> Some (Concat b v))"

definition DeserializeConfiguration :: "bytes \<Rightarrow> config_error + Configuration" where
  "DeserializeConfiguration encoded =
     (if length encoded < confLength + 2 then Inl ErrConfigurationInvalidLength
      else case DecodeVector (drop confLength encoded) of
             Inl err \<Rightarrow> Inl (errDecodingContext err)
           | Inr (ctx, _) \<Rightarrow>
               Inr \<lparr> Context = ctx,
                     KDF = unat (encoded ! 1),
                     MAC = unat (encoded ! 2),
                     Hash = unat (encoded ! 3),
                     OPRF = encoded ! 0,
                     KSF = encoded ! 4,
                     AKE = encoded ! 5 \<rparr>)"

text \<open>\<open>GetFakeEnvelope\<close> panics with \<open>errInvalidMACid\<close> (\<open>Inl\<close>) on an unavailable MAC.\<close>

definition GetFakeEnvelope :: "primitives \<Rightarrow> Configuration \<Rightarrow> config_error + bytes" where
  "GetFakeEnvelope prim c =
     (if \<not> hash_Available prim (MAC c) then Inl errInvalidMACid
      else let envelopeSize = NonceLength + hash_Size prim (MAC c)
           in Inr (replicate envelopeSize 0))"

section \<open>Wire messages and their deserializers (internal/configuration.go)\<close>

text \<open>
  A slice expression \<open>input[lo:hi]\<close> panics when its bounds are out of range; \<open>slice\<close>
  returns \<open>None\<close> there. \<open>input[lo:]\<close> is \<open>input[lo:len(input)]\<close> and \<open>input[:hi]\<close> is
  \<open>input[0:hi]\<close>. Lengths are Go \<open>int\<close>s holding sizes, read as natural numbers.
\<close>

definition slice :: "bytes \<Rightarrow> nat \<Rightarrow> nat \<Rightarrow> bytes option" where
  "slice input lo hi =
     (if lo \<le> hi \<and> hi \<le> length input then Some (take (hi - lo) (drop lo input)) else None)"

datatype message_error = errInvalidMessageLength | panic_slice_bounds

definition or_panic :: "'a option \<Rightarrow> message_error + 'a" where
  "or_panic r = (case r of None \<Rightarrow> Inl panic_slice_bounds | Some m \<Rightarrow> Inr m)"

record RegistrationRequest =
  rq_Data :: bytes

record RegistrationResponse =
  rs_Data :: bytes
  rs_Pks :: bytes

record RegistrationRecord =
  PublicKey :: bytes
  MaskingKey :: bytes
  Envelope :: bytes

record CredentialRequest =
  creq_Data :: bytes

record CredentialResponse =
  cresp_Data :: bytes
  MaskingNonce :: bytes
  MaskedResponse :: bytes

record KE1 =
  ke1_CredentialRequest :: CredentialRequest
  NonceU :: bytes
  EpkU :: bytes

record KE2 =
  ke2_CredentialResponse :: CredentialResponse
  NonceS :: bytes
  EpkS :: bytes
  ke2_Mac :: bytes

record KE3 =
  ke3_Mac :: bytes

definition DeserializeRegistrationRequest ::
    "Parameters \<Rightarrow> bytes \<Rightarrow> message_error + RegistrationRequest" where
  "DeserializeRegistrationRequest p input =
     (if length input \<noteq> OPRFPointLength p then Inl errInvalidMessageLength
      else Inr \<lparr> rq_Data = input \<rparr>)"

definition DeserializeRegistrationResponse ::
    "Parameters \<Rightarrow> bytes \<Rightarrow> message_error + RegistrationResponse" where
  "DeserializeRegistrationResponse p input =
     (if length input \<noteq> OPRFPointLength p + AkePointLength p then Inl errInvalidMessageLength
      else or_panic (do {
             d \<leftarrow> slice input 0 (OPRFPointLength p);
             k \<leftarrow> slice input (OPRFPointLength p) (length input);
             Some \<lparr> rs_Data = d, rs_Pks = k \<rparr> }))"

definition DeserializeRegistrationRecord ::
    "primitives \<Rightarrow> Parameters \<Rightarrow> bytes \<Rightarrow> message_error + RegistrationRecord" where
  "DeserializeRegistrationRecord prim p input =
     (if length input \<noteq> AkePointLength p + hash_Size prim (p_Hash p) + EnvelopeSize p
      then Inl errInvalidMessageLength
      else or_panic (do {
             pku \<leftarrow> slice input 0 (AkePointLength p);
             maskingKey \<leftarrow> slice input (AkePointLength p)
                                  (AkePointLength p + hash_Size prim (p_Hash p));
             env \<leftarrow> slice input (AkePointLength p + hash_Size prim (p_Hash p)) (length input);
             Some \<lparr> PublicKey = pku, MaskingKey = maskingKey, Envelope = env \<rparr> }))"

definition deserializeCredentialRequest :: "Parameters \<Rightarrow> bytes \<Rightarrow> CredentialRequest option" where
  "deserializeCredentialRequest p input =
     do { d \<leftarrow> slice input 0 (OPRFPointLength p); Some \<lparr> creq_Data = d \<rparr> }"

definition deserializeCredentialResponse ::
    "Parameters \<Rightarrow> bytes \<Rightarrow> nat \<Rightarrow> CredentialResponse option" where
  "deserializeCredentialResponse p input maxResponseLength =
     do { d \<leftarrow> slice input 0 (OPRFPointLength p);
          n \<leftarrow> slice input (OPRFPointLength p) (OPRFPointLength p + NonceLen p);
          r \<leftarrow> slice input (OPRFPointLength p + NonceLen p) maxResponseLength;
          Some \<lparr> cresp_Data = d, MaskingNonce = n, MaskedResponse = r \<rparr> }"

definition DeserializeKE1 :: "Parameters \<Rightarrow> bytes \<Rightarrow> message_error + KE1" where
  "DeserializeKE1 p input =
     (if length input \<noteq> OPRFPointLength p + NonceLen p + AkePointLength p
      then Inl errInvalidMessageLength
      else or_panic (do {
             head \<leftarrow> slice input 0 (OPRFPointLength p);
             creq \<leftarrow> deserializeCredentialRequest p head;
             nonceU \<leftarrow> slice input (OPRFPointLength p) (OPRFPointLength p + NonceLen p);
             epku \<leftarrow> slice input (OPRFPointLength p + NonceLen p) (length input);
             Some \<lparr> ke1_CredentialRequest = creq, NonceU = nonceU, EpkU = epku \<rparr> }))"

definition DeserializeKE2 :: "primitives \<Rightarrow> Parameters \<Rightarrow> bytes \<Rightarrow> message_error + KE2" where
  "DeserializeKE2 prim p input =
     (let maxResponseLength = OPRFPointLength p + NonceLen p + AkePointLength p + EnvelopeSize p
      in if length input \<noteq> maxResponseLength + NonceLen p + AkePointLength p
                              + hash_Size prim (p_MAC p)
         then Inl errInvalidMessageLength
         else or_panic (do {
                cresp \<leftarrow> deserializeCredentialResponse p input maxResponseLength;
                nonceS \<leftarrow> slice input maxResponseLength (maxResponseLength + NonceLen p);
                let offset = maxResponseLength + NonceLen p;
                epks \<leftarrow> slice input offset (offset + AkePointLength p);
                let offset = offset + AkePointLength p;
                mac \<leftarrow> slice input offset (length input);
                Some \<lparr> ke2_CredentialResponse = cresp, NonceS = nonceS, EpkS = epks,
                       ke2_Mac = mac \<rparr> }))"

definition DeserializeKE3 :: "primitives \<Rightarrow> Parameters \<Rightarrow> bytes \<Rightarrow> message_error + KE3" where
  "DeserializeKE3 prim p input =
     (if length input \<noteq> hash_Size prim (p_MAC p) then Inl errInvalidMessageLength
      else Inr \<lparr> ke3_Mac = input \<rparr>)"

text \<open>The byte layout of each message, fields in the order of the wire format.\<close>

definition bytes_RegistrationResponse :: "RegistrationResponse \<Rightarrow> bytes" where
  "bytes_RegistrationResponse m = rs_Data m @ rs_Pks m"

definition bytes_RegistrationRecord :: "RegistrationRecord \<Rightarrow> bytes" where
  "bytes_RegistrationRecord m = PublicKey m @ MaskingKey m @ Envelope m"

definition bytes_KE1 :: "KE1 \<Rightarrow> bytes" where
  "bytes_KE1 m = creq_Data (ke1_CredentialRequest m) @ NonceU m @ EpkU m"

definition bytes_KE2 :: "KE2 \<Rightarrow> bytes" where
  "bytes_KE2 m =
     cresp_Data (ke2_CredentialResponse m) @ MaskingNonce (ke2_CredentialResponse m)
       @ MaskedResponse (ke2_CredentialResponse m) @ NonceS m @ EpkS m @ ke2_Mac m"

subsection \<open>Masking of the credential response\<close>

text \<open>
  Modelled from the spec: \<open>internal.Xor\<close>, \<open>encoding.SuffixString\<close> and the constant
  \<open>tag.CredentialResponsePad\<close> are not among the source files. The specification masks with
  \<open>credential_response_pad XOR (pks || envelope)\<close>, both operands \<open>Np + Ne\<close> bytes long,
  and builds the info string as \<open>masking_nonce || "CredentialResponsePad"\<close>. \<open>Xor\<close> is the
  bytewise exclusive or of two byte strings of the same length and has no result
  (\<open>None\<close>) on operands of different lengths.
\<close>

definition Xor :: "bytes \<Rightarrow> bytes \<Rightarrow> bytes option" where
  "Xor a b = (if length a \<noteq> length b then None else Some (map2 (XOR) a b))"

definition CredentialResponsePad :: string where
  "CredentialResponsePad = ''CredentialResponsePad''"

definition SuffixString :: "bytes \<Rightarrow> string \<Rightarrow> bytes" where
  "SuffixString a s = a @ bytes_of s"

definition MaskResponse ::
    "primitives \<Rightarrow> Parameters \<Rightarrow> bytes \<Rightarrow> bytes \<Rightarrow> bytes \<Rightarrow> bytes option" where
  "MaskResponse prim p key nonce inp =
     (let pad = kdf_Expand prim (p_KDF p) key (SuffixString nonce CredentialResponsePad)
                  (PointLength prim (p_Group p) + EnvelopeSize p)
      in Xor pad inp)"

section \<open>The key schedule and the session metadata (internal/core.go)\<close>

definition labelPrefix :: string where "labelPrefix = ''OPAQUE''"
definition tagHandshake :: string where "tagHandshake = ''handshake secret''"
definition tagSession :: string where "tagSession = ''session secret''"
definition tagMacServer :: string where "tagMacServer = ''server mac''"
definition tagMacClient :: string where "tagMacClient = ''client mac''"
definition tagEncServer :: string where "tagEncServer = ''server enc''"

definition AesGcmKeyLength :: nat where
  "AesGcmKeyLength = 32"

text \<open>
  The hash object \<open>*hash.Hash\<close> of the external library is a parameter: its
  \<open>HKDFExpand(secret, info, length)\<close>, its \<open>Hash(0, input)\<close> and its \<open>OutputSize()\<close>.
\<close>

record hash_ops =
  HKDFExpand :: "bytes \<Rightarrow> bytes \<Rightarrow> nat \<Rightarrow> bytes"
  Hash_0 :: "bytes \<Rightarrow> bytes"
  OutputSize :: nat

definition buildLabel :: "string \<Rightarrow> bytes" where
  "buildLabel label = bytes_of (labelPrefix @ label)"

definition hkdfExpand :: "hash_ops \<Rightarrow> bytes \<Rightarrow> bytes \<Rightarrow> nat \<Rightarrow> bytes" where
  "hkdfExpand h secret hkdfLabel len = HKDFExpand h secret hkdfLabel len"

definition hkdfExpandLabel :: "hash_ops \<Rightarrow> bytes \<Rightarrow> bytes \<Rightarrow> string \<Rightarrow> nat \<Rightarrow> bytes" where
  "hkdfExpandLabel h secret context label len = hkdfExpand h secret (buildLabel label) len"

definition deriveSecret :: "hash_ops \<Rightarrow> bytes \<Rightarrow> bytes \<Rightarrow> string \<Rightarrow> bytes" where
  "deriveSecret h secret transcript label =
     hkdfExpandLabel h secret (Hash_0 h transcript) label (OutputSize h)"

definition keySchedule :: "hash_ops \<Rightarrow> bytes \<Rightarrow> bytes \<Rightarrow> bytes \<times> bytes" where
  "keySchedule h ikm info' =
     (let handshakeSecret = deriveSecret h ikm info' tagHandshake;
          sessionSecret = deriveSecret h ikm info' tagSession
      in (handshakeSecret, sessionSecret))"

definition macKeys :: "hash_ops \<Rightarrow> bytes \<Rightarrow> bytes \<times> bytes" where
  "macKeys h handshakeSecret =
     (let km2 = hkdfExpandLabel h handshakeSecret [] tagMacServer (OutputSize h);
          km3 = hkdfExpandLabel h handshakeSecret [] tagMacClient (OutputSize h)
      in (km2, km3))"

text \<open>
  The derivation the specification words, for comparison with \<open>hkdfExpandLabel\<close>:
  \<open>HKDF-Expand-Label(prk, label, context, L) =
   HKDF-Expand(prk, I2OSP(L,2) || EncodeVector("OPAQUE-" || label) || EncodeVector(context), L)\<close>.
\<close>

definition spec_Expand_Label_info :: "string \<Rightarrow> bytes \<Rightarrow> nat \<Rightarrow> bytes option" where
  "spec_Expand_Label_info label context L =
     do { l \<leftarrow> I2OSP L 2;
          lab \<leftarrow> EncodeVector (bytes_of (''OPAQUE-'' @ label));
          ctx \<leftarrow> EncodeVector context;
          Some (l @ lab @ ctx) }"

definition spec_HKDF_Expand_Label ::
    "hash_ops \<Rightarrow> bytes \<Rightarrow> string \<Rightarrow> bytes \<Rightarrow> nat \<Rightarrow> bytes option" where
  "spec_HKDF_Expand_Label h prk label context L =
     map_option (\<lambda>i. HKDFExpand h prk i L) (spec_Expand_Label_info label context L)"

text \<open>
  The credentials of a run are read through the interface \<open>message.Credentials\<close>; a nil
  byte slice is \<open>None\<close>. Only the mode \<open>envelope.CustomIdentifier\<close> is named in the source.
\<close>

datatype envelope_Mode = Base | CustomIdentifier

record Credentials =
  EnvelopeMode :: envelope_Mode
  UserID :: "bytes option"
  ServerID :: "bytes option"
  ServerPublicKey :: "bytes option"

record Metadata =
  CredReq :: bytes
  CredResp :: bytes
  IDu :: "bytes option"
  IDs :: "bytes option"
  Info1 :: bytes
  KeyLen :: nat

text \<open>
  \<open>Fill\<close> panics (\<open>None\<close>) when the encoding \<open>enc.Encode(cresp)\<close> fails, and returns the
  nil error otherwise; the result is the metadata as updated in place.
\<close>

definition Fill ::
    "(CredentialResponse \<Rightarrow> bytes option) \<Rightarrow> Metadata \<Rightarrow> Credentials \<Rightarrow> CredentialResponse
       \<Rightarrow> bytes option \<Rightarrow> Metadata option" where
  "Fill enc_Encode m creds cresp pku =
     (let m1 = (if EnvelopeMode creds = CustomIdentifier
                then m\<lparr> IDu := UserID creds, IDs := ServerID creds \<rparr> else m);
          m2 = (if IDu m1 = None then m1\<lparr> IDu := pku \<rparr> else m1);
          m3 = (if IDs m2 = None then m2\<lparr> IDs := ServerPublicKey creds \<rparr> else m2)
      in case enc_Encode cresp of
           None \<Rightarrow> None
         | Some encCresp \<Rightarrow> Some (m3\<lparr> CredResp := encCresp, KeyLen := AesGcmKeyLength \<rparr>))"

definition nil_or :: "bytes option \<Rightarrow> bytes" where
  "nil_or b = (case b of None \<Rightarrow> [] | Some x \<Rightarrow> x)"

text \<open>
  \<open>encoding.I2OSP2\<close> of the external library is the two-byte \<open>I2OSP\<close>;
  \<open>utils.Concatenate(0, ...)\<close> joins its arguments.
\<close>

definition lengthPrefixEncode :: "bytes \<Rightarrow> bytes option" where
  "lengthPrefixEncode input = map_option (\<lambda>h. h @ input) (I2OSP (length input) 2)"

definition info :: "bytes \<Rightarrow> bytes \<Rightarrow> bytes \<Rightarrow> bytes option \<Rightarrow> bytes option \<Rightarrow> bytes option" where
  "info protoTag nonceU nonceS idU idS =
     do { a \<leftarrow> lengthPrefixEncode nonceU;
          b \<leftarrow> lengthPrefixEncode nonceS;
          c \<leftarrow> lengthPrefixEncode (nil_or idU);
          d \<leftarrow> lengthPrefixEncode (nil_or idS);
          Some (concat [protoTag, a, b, c, d]) }"

record Core =
  Km2 :: bytes
  Km3 :: bytes
  Ke2 :: bytes
  SessionSecret :: bytes

definition DeriveKeys ::
    "hash_ops \<Rightarrow> Core \<Rightarrow> Metadata \<Rightarrow> bytes \<Rightarrow> bytes \<Rightarrow> bytes \<Rightarrow> bytes \<Rightarrow> Core option" where
  "DeriveKeys h c m tag nonceU nonceS ikm =
     do { info' \<leftarrow> info tag nonceU nonceS (IDu m) (IDs m);
          let (handshakeSecret, sessionSecret) = keySchedule h ikm info';
          let (km2, km3) = macKeys h handshakeSecret;
          Some (c\<lparr> SessionSecret := sessionSecret, Km2 := km2, Km3 := km3,
                   Ke2 := hkdfExpandLabel h handshakeSecret [] tagEncServer (KeyLen m) \<rparr>) }"

section \<open>Key derivation of the OPRF ciphersuite (internal/oprf/oprf.go)\<close>

text \<open>
  Modelled from the spec: the constants of the package \<open>internal/tag\<close> are not among the
  source files; the specification gives \<open>"OPRFV1-"\<close> for the OPRF context string and
  \<open>"OPAQUE-DeriveKeyPair"\<close> for the key-derivation tag.
\<close>

definition tag_OPRF :: string where "tag_OPRF = ''OPRFV1-''"
definition tag_DeriveKeyPairInternal :: string where
  "tag_DeriveKeyPairInternal = ''OPAQUE-DeriveKeyPair''"

definition base :: nat where
  "base = 0"

definition Concat3 :: "bytes \<Rightarrow> bytes \<Rightarrow> bytes \<Rightarrow> bytes" where
  "Concat3 a b c = a @ b @ c"

definition contextString :: "Group \<Rightarrow> bytes option" where
  "contextString c =
     do { m \<leftarrow> I2OSP base 1; s \<leftarrow> I2OSP (unat c) 2; Some (Concat3 (bytes_of tag_OPRF) m s) }"

text \<open>
  The group's \<open>HashToScalar(input, dst)\<close> and the scalar's \<open>IsZero()\<close> belong to the
  external group library and are parameters.
\<close>

record 'sc scalar_ops =
  HashToScalar :: "Group \<Rightarrow> bytes \<Rightarrow> bytes \<Rightarrow> 'sc"
  IsZero :: "'sc \<Rightarrow> bool"

datatype derive_error = DeriveKeyPairError | encoding_panic

text \<open>
  The loop of \<open>DeriveKey\<close>: \<open>s\<close> starts as nil (\<open>None\<close>), \<open>counter\<close> is a \<open>uint8\<close> and
  \<open>counter++\<close> wraps around. A run that does not return has the value \<open>None\<close>; a panic
  is \<open>Some (Inl _)\<close>.
\<close>

partial_function (option) DeriveKey_loop ::
    "'sc scalar_ops \<Rightarrow> Group \<Rightarrow> bytes \<Rightarrow> bytes \<Rightarrow> 'sc option \<Rightarrow> 8 word
       \<Rightarrow> (derive_error + 'sc) option" where
  "DeriveKey_loop G c deriveInput dst s counter =
     (if (case s of None \<Rightarrow> True | Some x \<Rightarrow> IsZero G x)
      then if unat counter > 255 then Some (Inl DeriveKeyPairError)
           else DeriveKey_loop G c deriveInput dst
                  (Some (HashToScalar G c (Concat deriveInput [counter]) dst)) (counter + 1)
      else map_option Inr s)"

definition DeriveKey :: "'sc scalar_ops \<Rightarrow> Group \<Rightarrow> bytes \<Rightarrow> bytes \<Rightarrow> (derive_error + 'sc) option" where
  "DeriveKey G c seed info' =
     (case contextString c of
        None \<Rightarrow> Some (Inl encoding_panic)
      | Some cs \<Rightarrow>
          let dst = Concat (bytes_of tag_DeriveKeyPairInternal) cs
          in (case EncodeVector info' of
                None \<Rightarrow> Some (Inl encoding_panic)
              | Some v \<Rightarrow>
                  let deriveInput = Concat seed v
                  in DeriveKey_loop G c deriveInput dst None 0))"

section \<open>The server's 3DH input keying material (serverK3dh)\<close>

text \<open>
  The scalar and element operations of the external group library are parameters:
  decoding (which may fail), scalar multiplication \<open>p.Mult(s)\<close> and the encoding
  \<open>Bytes()\<close>. \<open>esk\<close> is the field \<open>core.Esk\<close>.
\<close>

record ('sc, 'pt, 'e) group_ops =
  Scalar_Decode :: "bytes \<Rightarrow> 'e + 'sc"
  Element_Decode :: "bytes \<Rightarrow> 'e + 'pt"
  Mult :: "'pt \<Rightarrow> 'sc \<Rightarrow> 'pt"
  Bytes :: "'pt \<Rightarrow> bytes"

datatype 'e k3dh_error = sk_error 'e | epku_error 'e | pku_error 'e

definition serverK3dh ::
    "('sc, 'pt, 'e) group_ops \<Rightarrow> 'sc \<Rightarrow> bytes \<Rightarrow> bytes \<Rightarrow> bytes \<Rightarrow> 'e k3dh_error + bytes" where
  "serverK3dh G esk sk epku pku =
     (case Scalar_Decode G sk of
        Inl err \<Rightarrow> Inl (sk_error err)
      | Inr sks \<Rightarrow>
          (case Element_Decode G epku of
             Inl err \<Rightarrow> Inl (epku_error err)
           | Inr epk \<Rightarrow>
               (case Element_Decode G pku of
                  Inl err \<Rightarrow> Inl (pku_error err)
                | Inr gpk \<Rightarrow>
                    let e1 = Mult G epk esk;
                        e2 = Mult G epk sks;
                        e3 = Mult G gpk esk
                    in Inr (concat [Bytes G e1, Bytes G e2, Bytes G e3]))))"

section \<open>The client's AuthenticationFinalize\<close>

text \<open>
  The operations the client calls on its core, its AKE and the envelope package are not
  among the source files and are parameters, each with the arguments the call passes:
  \<open>Core.OprfFinalize(ke2.Data)\<close>, \<open>Core.BuildPRK(unblinded, nil)\<close>, \<open>Core.Expand\<close>,
  \<open>Core.Hash.Size()\<close>, \<open>internal.PointLength(AkeGroup)\<close>, \<open>envelope.EnvelopeSize(...)\<close>,
  \<open>envelope.DeserializeEnvelope\<close>, \<open>Core.RecoverSecret\<close> (returning the secret key
  \<open>Skc\<close> of the credentials, \<open>pkc\<close> and the export key) and \<open>Ake.Finalize\<close>.
  The identities \<open>idc\<close> and \<open>ids\<close> may be nil (\<open>None\<close>).
\<close>

record ('env, 'ke3, 'err) Client =
  OprfFinalize :: "bytes \<Rightarrow> 'err + bytes"
  BuildPRK :: "bytes \<Rightarrow> bytes"
  Core_Expand :: "bytes \<Rightarrow> bytes \<Rightarrow> nat \<Rightarrow> bytes"
  Core_Hash_Size :: nat
  Ake_PointLength :: nat
  envelope_EnvelopeSize :: nat
  DeserializeEnvelope :: "bytes \<Rightarrow> 'err + 'env"
  RecoverSecret :: "bytes option \<Rightarrow> bytes option \<Rightarrow> bytes \<Rightarrow> bytes \<Rightarrow> 'env
                      \<Rightarrow> 'err + (bytes \<times> bytes \<times> bytes)"
  Ake_Finalize :: "bytes \<Rightarrow> bytes \<Rightarrow> bytes \<Rightarrow> bytes \<Rightarrow> KE1 \<Rightarrow> KE2 \<Rightarrow> 'err + 'ke3"
  Ke1 :: KE1

datatype 'err client_error =
    errMaskedResponseLength
  | errFinalizingOPRF 'err
  | err_from 'err
  | client_panic

text \<open>
  Lines 87 to 91: the pad is recomputed from the masking key and the masking nonce,
  XORed onto the masked response, and the clear text is split at the point length.
\<close>

definition unmaskResponse ::
    "('env, 'ke3, 'err) Client \<Rightarrow> bytes \<Rightarrow> CredentialResponse \<Rightarrow> (bytes \<times> bytes) option" where
  "unmaskResponse c maskingKey cresp =
     (let crPad = Core_Expand c maskingKey
                    (concat [MaskingNonce cresp, bytes_of ''CredentialResponsePad''])
                    (Ake_PointLength c + envelope_EnvelopeSize c)
      in do { clear \<leftarrow> Xor crPad (MaskedResponse cresp);
              pks \<leftarrow> slice clear 0 (Ake_PointLength c);
              e \<leftarrow> slice clear (Ake_PointLength c) (length clear);
              Some (pks, e) })"

definition AuthenticationFinalize ::
    "('env, 'ke3, 'err) Client \<Rightarrow> bytes option \<Rightarrow> bytes option \<Rightarrow> KE2
       \<Rightarrow> 'err client_error + ('ke3 \<times> bytes)" where
  "AuthenticationFinalize c idc ids ke2 =
     (if length (MaskedResponse (ke2_CredentialResponse ke2))
           \<noteq> Ake_PointLength c + envelope_EnvelopeSize c
      then Inl errMaskedResponseLength
      else case OprfFinalize c (cresp_Data (ke2_CredentialResponse ke2)) of
        Inl err \<Rightarrow> Inl (errFinalizingOPRF err)
      | Inr unblinded \<Rightarrow>
          (let prk = BuildPRK c unblinded;
               maskingKey = Core_Expand c prk (bytes_of ''MaskingKey'') (Core_Hash_Size c)
           in case unmaskResponse c maskingKey (ke2_CredentialResponse ke2) of
                None \<Rightarrow> Inl client_panic
              | Some (pks, e) \<Rightarrow>
                  (case DeserializeEnvelope c e of
                     Inl err \<Rightarrow> Inl (err_from err)
                   | Inr env \<Rightarrow>
                       (case RecoverSecret c idc ids pks prk env of
                          Inl err \<Rightarrow> Inl (err_from err)
                        | Inr (skc, pkc, exportKey) \<Rightarrow>
                            (let creds_Idc = (case idc of None \<Rightarrow> pkc | Some i \<Rightarrow> i);
                                 creds_Ids = (case ids of None \<Rightarrow> pks | Some i \<Rightarrow> i)
                             in case Ake_Finalize c creds_Idc skc creds_Ids pks (Ke1 c) ke2 of
                                  Inl err \<Rightarrow> Inl (err_from err)
                                | Inr ke3 \<Rightarrow> Inr (ke3, exportKey))))))"

section \<open>The registered identifiers and sample inputs\<close>

text \<open>
  The registered set of the specification: the hash, KSF and group identifiers the
  external libraries report as available, the identity KSF \<open>0\<close>, and the four OPRF
  ciphersuites.
\<close>

definition registered_OPRF :: "Group set" where
  "registered_OPRF = {RistrettoSha512, P256Sha256, P384Sha384, P521Sha512}"

definition all_registered :: "primitives \<Rightarrow> Configuration \<Rightarrow> bool" where
  "all_registered prim c =
     (hash_Available prim (KDF c) \<and> hash_Available prim (MAC c) \<and> hash_Available prim (Hash c)
      \<and> (KSF c = 0 \<or> ksf_Available prim (KSF c))
      \<and> OPRF c \<in> registered_OPRF
      \<and> group_Available prim (AKE c))"

text \<open>
  \<open>DefaultConfiguration\<close> of the source; \<open>ksf.Scrypt\<close> is a constant of the external
  library, taken as \<open>2\<close>.
\<close>

definition ksf_Scrypt :: ksf_Identifier where
  "ksf_Scrypt = 2"

definition DefaultConfiguration :: Configuration where
  "DefaultConfiguration =
     \<lparr> Context = [], KDF = SHA512, MAC = SHA512, Hash = SHA512,
       OPRF = RistrettoSha512, KSF = ksf_Scrypt, AKE = RistrettoSha512 \<rparr>"

text \<open>
  One instance of the external primitives, for running the model on concrete inputs:
  three hashes with their output sizes, the four groups with their point lengths, and a
  stand-in for HKDF-Expand that returns \<open>len\<close> bytes.
\<close>

definition sample_primitives :: primitives where
  "sample_primitives =
     \<lparr> hash_Available = (\<lambda>h. h = SHA256 \<or> h = SHA384 \<or> h = SHA512),
       ksf_Available = (\<lambda>k. k = 1 \<or> k = 2 \<or> k = 3),
       group_Available = (\<lambda>g. g = 1 \<or> g = 3 \<or> g = 4 \<or> g = 5),
       hash_Size = (\<lambda>h. if h = SHA256 then 32 else if h = SHA384 then 48 else 64),
       PointLength = (\<lambda>g. if g = 1 then 32 else if g = 3 then 33 else if g = 4 then 49 else 67),
       kdf_Expand = (\<lambda>h key info' len. replicate len (of_nat (length key + length info'))) \<rparr>"

text \<open>
  Small parameters (point length 1, nonce length 1, MAC and hash size 2, envelope size 3),
  so that whole messages can be written out.
\<close>

definition small_primitives :: primitives where
  "small_primitives = sample_primitives\<lparr> hash_Size := (\<lambda>h. 2), PointLength := (\<lambda>g. 1) \<rparr>"

definition small_Parameters :: Parameters where
  "small_Parameters =
     \<lparr> p_KDF = SHA256, p_MAC = SHA256, p_Hash = SHA256, p_KSF = 0,
       NonceLen = 1, EnvelopeSize = 3, OPRFPointLength = 1, AkePointLength = 1,
       p_Group = RistrettoSha512, p_OPRF = RistrettoSha512, p_Context = [] \<rparr>"

text \<open>
  What the specification asks of a message deserializer reading \<open>b\<close> with result \<open>r\<close>:
  it succeeds exactly when \<open>b\<close> has the message's total length \<open>L\<close>, fails with
  \<open>InvalidMessageLength\<close> otherwise, and a parsed message accounts for all of \<open>b\<close>.
\<close>

definition exact_length_parse ::
    "message_error + 'm \<Rightarrow> bytes \<Rightarrow> nat \<Rightarrow> ('m \<Rightarrow> bytes) \<Rightarrow> bool" where
  "exact_length_parse r b L layout =
     (((\<exists>m. r = Inr m) \<longleftrightarrow> length b = L)
      \<and> (length b \<noteq> L \<longrightarrow> r = Inl errInvalidMessageLength)
      \<and> (\<forall>m. r = Inr m \<longrightarrow> layout m = b))"

text \<open>
  Modelled from the spec: \<open>BuildEnvelope\<close> and \<open>RecoverEnvelope\<close> (the envelope package,
  called through \<open>Core.RecoverSecret\<close>) are not among the source files. Section 4.5,
  steps 5 and 6: \<open>cleartext_creds = EncodeVector(pks) || EncodeVector(id_s_or_pks) ||
  EncodeVector(id_u_or_pkc)\<close>, where the defaults apply when an identity is absent, and
  \<open>auth_tag = MAC(auth_key, nonce || cleartext_creds)\<close>.
\<close>

definition cleartext_creds ::
    "bytes \<Rightarrow> bytes \<Rightarrow> bytes option \<Rightarrow> bytes option \<Rightarrow> bytes option" where
  "cleartext_creds pks pkc client_identity server_identity =
     do { a \<leftarrow> EncodeVector pks;
          b \<leftarrow> EncodeVector (case server_identity of None \<Rightarrow> pks | Some i \<Rightarrow> i);
          c \<leftarrow> EncodeVector (case client_identity of None \<Rightarrow> pkc | Some i \<Rightarrow> i);
          Some (a @ b @ c) }"

definition envelope_MAC_input ::
    "bytes \<Rightarrow> bytes \<Rightarrow> bytes \<Rightarrow> bytes option \<Rightarrow> bytes option \<Rightarrow> bytes option" where
  "envelope_MAC_input nonce pks pkc client_identity server_identity =
     map_option (\<lambda>c. nonce @ c) (cleartext_creds pks pkc client_identity server_identity)"

text \<open>
  A client whose collaborators are stand-ins: the OPRF and the envelope reader hand their
  input on, \<open>RecoverSecret\<close> returns fixed keys, and \<open>Ake.Finalize\<close> returns the two
  identities it was called with.
\<close>

definition sample_Client :: "(bytes, bytes \<times> bytes, unit) Client" where
  "sample_Client =
     \<lparr> OprfFinalize = (\<lambda>d. Inr d),
       BuildPRK = (\<lambda>u. u),
       Core_Expand = kdf_Expand small_primitives SHA256,
       Core_Hash_Size = 2,
       Ake_PointLength = 1,
       envelope_EnvelopeSize = 3,
       DeserializeEnvelope = (\<lambda>e. Inr e),
       RecoverSecret = (\<lambda>idc ids pks prk env. Inr ([7], [8], [9])),
       Ake_Finalize = (\<lambda>idc skc ids pks ke1 ke2. Inr (idc, ids)),
       Ke1 = \<lparr> ke1_CredentialRequest = \<lparr> creq_Data = [1] \<rparr>, NonceU = [2], EpkU = [3] \<rparr> \<rparr>"

definition sample_KE2 :: KE2 where
  "sample_KE2 =
     \<lparr> ke2_CredentialResponse =
         \<lparr> cresp_Data = [5], MaskingNonce = [3], MaskedResponse = [18, 12, 6, 48] \<rparr>,
       NonceS = [4], EpkS = [6], ke2_Mac = [0, 0] \<rparr>"

definition sample_Credentials :: Credentials where
  "sample_Credentials =
     \<lparr> EnvelopeMode = CustomIdentifier, UserID = None, ServerID = None,
       ServerPublicKey = Some [9] \<rparr>"

definition empty_Metadata :: Metadata where
  "empty_Metadata =
     \<lparr> CredReq = [], CredResp = [], IDu = None, IDs = None, Info1 = [], KeyLen = 0 \<rparr>"

text \<open>A group whose \<open>HashToScalar\<close> returns the zero scalar on every input.\<close>

definition zero_scalar_ops :: "nat scalar_ops" where
  "zero_scalar_ops = \<lparr> HashToScalar = (\<lambda>g input dst. 0), IsZero = (\<lambda>x. x = 0) \<rparr>"

text \<open>
  A toy group for running \<open>serverK3dh\<close>: scalars and elements are numbers modulo 251,
  encoded in one byte, and the zero byte does not decode.
\<close>

definition toy_decode :: "bytes \<Rightarrow> unit + nat" where
  "toy_decode b = (case b of [x] \<Rightarrow> if x = 0 then Inl () else Inr (unat x) | _ \<Rightarrow> Inl ())"

definition toy_group :: "(nat, nat, unit) group_ops" where
  "toy_group =
     \<lparr> Scalar_Decode = toy_decode, Element_Decode = toy_decode,
       Mult = (\<lambda>p s. p * s mod 251), Bytes = (\<lambda>p. [of_nat p]) \<rparr>"


section \<open>Properties of the encoding\<close>

lemma be_bytes_length: "length (be_bytes n w) = w"
  by (induction w arbitrary: n) auto

lemma be_bytes_2: "be_bytes n 2 = [of_nat (n div 256 mod 256), of_nat (n mod 256)]"
  by (simp add: numeral_2_eq_2)

lemma OS2IP_snoc: "OS2IP (bs @ [b]) = OS2IP bs * 256 + unat b"
  by (simp add: OS2IP_def)

lemma unat_byte_of_nat: "unat (of_nat n :: byte) = n mod 256"
  by (simp add: unat_of_nat)

lemma OS2IP_be_bytes: "n < 256 ^ w \<Longrightarrow> OS2IP (be_bytes n w) = n"
proof (induction w arbitrary: n)
  case 0
  then show ?case by (simp add: OS2IP_def)
next
  case (Suc w)
  have "n div 256 < 256 ^ w"
    using Suc.prems by (simp add: less_mult_imp_div_less)
  then have "OS2IP (be_bytes (n div 256) w) = n div 256"
    by (rule Suc.IH)
  then show ?case
    by (simp add: OS2IP_snoc unat_byte_of_nat)
qed

lemma DecodeVector_EncodeVector:
  "EncodeVector v = Some e \<Longrightarrow> DecodeVector (e @ rest) = Inr (v, 2 + length v)"
  by (auto simp: EncodeVector_def I2OSP_def DecodeVector_def Let_def be_bytes_length
        OS2IP_be_bytes split: if_splits)

lemma EncodeVector_Some:
  "length v \<le> 65535 \<Longrightarrow> EncodeVector v = Some (be_bytes (length v) 2 @ v)"
  by (simp add: EncodeVector_def I2OSP_def)

lemma EncodeVector_length: "EncodeVector v = Some e \<Longrightarrow> length e = 2 + length v"
  by (auto simp: EncodeVector_def I2OSP_def be_bytes_length split: if_splits)

section \<open>Configuration: validation, serialization, the fake envelope\<close>

lemma Ciphersuite_Available_iff: "Ciphersuite_Available g \<longleftrightarrow> g \<in> registered_OPRF"
  by (simp add: Ciphersuite_Available_def suiteToHash_def register_def registered_OPRF_def)

lemma verify_None_iff: "verify prim c = None \<longleftrightarrow> all_registered prim c"
  by (auto simp: verify_def all_registered_def Ciphersuite_Available_iff)

lemma toInternal_verified: "verify prim c = None \<Longrightarrow> \<exists>ip. toInternal prim c = Inr ip"
  by (simp add: toInternal_def Let_def)

lemma toInternal_rejected: "verify prim c = Some err \<Longrightarrow> toInternal prim c = Inl err"
  by (simp add: toInternal_def)

lemma verify_first_error:
  "verify prim c = Some err \<Longrightarrow>
     (err = errInvalidKDFid \<and> \<not> hash_Available prim (KDF c))
   \<or> (err = errInvalidMACid \<and> \<not> hash_Available prim (MAC c))
   \<or> (err = errInvalidHASHid \<and> \<not> hash_Available prim (Hash c))
   \<or> (err = errInvalidKSFid \<and> KSF c \<noteq> 0 \<and> \<not> ksf_Available prim (KSF c))
   \<or> (err = errInvalidOPRFid \<and> OPRF c \<notin> registered_OPRF)
   \<or> (err = errInvalidAKEid \<and> \<not> group_Available prim (AKE c))"
  by (auto simp: verify_def Ciphersuite_Available_iff split: if_splits)

lemma sample_default_registered: "all_registered sample_primitives DefaultConfiguration"
  by (simp add: all_registered_def sample_primitives_def DefaultConfiguration_def
        registered_OPRF_def SHA512_def RistrettoSha512_def ksf_Scrypt_def)

lemma sample_unregistered_OPRF:
  "\<not> all_registered sample_primitives (DefaultConfiguration\<lparr> OPRF := 2 \<rparr>)"
  by (simp add: all_registered_def sample_primitives_def DefaultConfiguration_def
        registered_OPRF_def SHA512_def RistrettoSha512_def P256Sha256_def P384Sha384_def
        P521Sha512_def)

text \<open>
  C7. Validation returns an error exactly when one of the six identifiers is outside the
  registered set; the error is that of the first offending field, in the order KDF, MAC,
  Hash, KSF, OPRF, AKE, and it is what \<open>toInternal\<close> returns. When all six are registered
  validation returns nil and \<open>toInternal\<close> builds the internal parameters.
\<close>

theorem verify_rejects_iff_unregistered:
  "(verify prim c \<noteq> None \<longleftrightarrow> \<not> all_registered prim c)
   \<and> (all_registered prim c \<longrightarrow> verify prim c = None \<and> (\<exists>ip. toInternal prim c = Inr ip))
   \<and> (\<forall>err. verify prim c = Some err \<longrightarrow>
         toInternal prim c = Inl err \<and>
         ((err = errInvalidKDFid \<and> \<not> hash_Available prim (KDF c))
          \<or> (err = errInvalidMACid \<and> \<not> hash_Available prim (MAC c))
          \<or> (err = errInvalidHASHid \<and> \<not> hash_Available prim (Hash c))
          \<or> (err = errInvalidKSFid \<and> KSF c \<noteq> 0 \<and> \<not> ksf_Available prim (KSF c))
          \<or> (err = errInvalidOPRFid \<and> OPRF c \<notin> registered_OPRF)
          \<or> (err = errInvalidAKEid \<and> \<not> group_Available prim (AKE c))))"
proof (intro conjI allI impI)
  show "(verify prim c \<noteq> None) = (\<not> all_registered prim c)"
    by (simp add: verify_None_iff)
next
  assume "all_registered prim c"
  then show "verify prim c = None"
    by (simp add: verify_None_iff)
next
  assume "all_registered prim c"
  then have "verify prim c = None"
    by (simp add: verify_None_iff)
  then show "\<exists>ip. toInternal prim c = Inr ip"
    by (rule toInternal_verified)
next
  fix err
  assume "verify prim c = Some err"
  then show "toInternal prim c = Inl err"
    by (rule toInternal_rejected)
next
  fix err
  assume "verify prim c = Some err"
  then show "(err = errInvalidKDFid \<and> \<not> hash_Available prim (KDF c))
          \<or> (err = errInvalidMACid \<and> \<not> hash_Available prim (MAC c))
          \<or> (err = errInvalidHASHid \<and> \<not> hash_Available prim (Hash c))
          \<or> (err = errInvalidKSFid \<and> KSF c \<noteq> 0 \<and> \<not> ksf_Available prim (KSF c))
          \<or> (err = errInvalidOPRFid \<and> OPRF c \<notin> registered_OPRF)
          \<or> (err = errInvalidAKEid \<and> \<not> group_Available prim (AKE c))"
    by (rule verify_first_error)
qed

theorem verify_rejects_iff_unregistered_witness:
  "all_registered sample_primitives DefaultConfiguration
   \<and> verify sample_primitives DefaultConfiguration = None
   \<and> (\<exists>ip. toInternal sample_primitives DefaultConfiguration = Inr ip)
   \<and> \<not> all_registered sample_primitives (DefaultConfiguration\<lparr> OPRF := 2 \<rparr>)
   \<and> verify sample_primitives (DefaultConfiguration\<lparr> OPRF := 2 \<rparr>) \<noteq> None"
  using sample_default_registered sample_unregistered_OPRF
    verify_rejects_iff_unregistered [of sample_primitives DefaultConfiguration]
    verify_rejects_iff_unregistered [of sample_primitives "DefaultConfiguration\<lparr> OPRF := 2 \<rparr>"]
  by simp

lemma Deserialize_ids_vector:
  assumes "EncodeVector ctx = Some v"
  shows "DeserializeConfiguration (o1 # k # m # h # f # a # v) =
           Inr \<lparr> Context = ctx, KDF = unat k, MAC = unat m, Hash = unat h,
                 OPRF = o1, KSF = f, AKE = a \<rparr>"
proof -
  have len: "length v = 2 + length ctx"
    using assms by (rule EncodeVector_length)
  have dec: "DecodeVector v = Inr (ctx, 2 + length ctx)"
    using DecodeVector_EncodeVector [OF assms, of "[]"] by simp
  show ?thesis
    by (simp add: DeserializeConfiguration_def confLength_def len dec)
qed

lemma DeserializeConfiguration_short:
  "length b < 8 \<Longrightarrow> DeserializeConfiguration b = Inl ErrConfigurationInvalidLength"
  by (simp add: DeserializeConfiguration_def confLength_def)

text \<open>
  C8, as the code has it. The claim as stated fails: \<open>KDF\<close>, \<open>MAC\<close> and \<open>Hash\<close> are
  \<open>crypto.Hash\<close> values (Go \<open>uint\<close>) and \<open>Serialize\<close> keeps only their low byte, so a
  configuration with \<open>KDF = 263\<close> comes back with \<open>KDF = 7\<close>.
\<close>

theorem Serialize_roundtrip_counterexample:
  "length (Context \<lparr>Context = [], KDF = 263, MAC = 7, Hash = 7, OPRF = 1, KSF = 2, AKE = 1\<rparr>)
     \<le> 65535
   \<and> Serialize \<lparr>Context = [], KDF = 263, MAC = 7, Hash = 7, OPRF = 1, KSF = 2, AKE = 1\<rparr>
       = Some [1, 7, 7, 7, 2, 1, 0, 0]
   \<and> DeserializeConfiguration [1, 7, 7, 7, 2, 1, 0, 0]
       = Inr \<lparr>Context = [], KDF = 7, MAC = 7, Hash = 7, OPRF = 1, KSF = 2, AKE = 1\<rparr>
   \<and> DeserializeConfiguration [1, 7, 7, 7, 2, 1, 0, 0]
       \<noteq> Inr \<lparr>Context = [], KDF = 263, MAC = 7, Hash = 7, OPRF = 1, KSF = 2, AKE = 1\<rparr>"
  by (simp add: Serialize_def EncodeVector_def I2OSP_def be_bytes_2 Concat_def
        DeserializeConfiguration_def confLength_def DecodeVector_def OS2IP_def)

text \<open>
  C8, amended. For every configuration whose context is at most 65535 bytes and whose
  KDF, MAC and Hash identifiers are below 256, \<open>Serialize\<close> emits the six identifier bytes
  OPRF, KDF, MAC, Hash, KSF, AKE followed by the length-prefixed context, and
  \<open>DeserializeConfiguration\<close> of that output is the configuration itself. Every input
  shorter than 8 bytes is rejected with \<open>ErrConfigurationInvalidLength\<close>.
\<close>

theorem Serialize_Deserialize_roundtrip:
  assumes "length (Context c) \<le> 65535" and "KDF c < 256" and "MAC c < 256" and "Hash c < 256"
  shows "\<exists>v. EncodeVector (Context c) = Some v
           \<and> v = be_bytes (length (Context c)) 2 @ Context c
           \<and> Serialize c =
               Some ([OPRF c, of_nat (KDF c), of_nat (MAC c), of_nat (Hash c), KSF c, AKE c] @ v)
           \<and> DeserializeConfiguration
               ([OPRF c, of_nat (KDF c), of_nat (MAC c), of_nat (Hash c), KSF c, AKE c] @ v)
               = Inr c
           \<and> (\<forall>b. length b < 8 \<longrightarrow>
                  DeserializeConfiguration b = Inl ErrConfigurationInvalidLength)"
proof -
  let ?ids = "[OPRF c, of_nat (KDF c), of_nat (MAC c), of_nat (Hash c), KSF c, AKE c]"
  let ?v = "be_bytes (length (Context c)) 2 @ Context c"
  have v: "EncodeVector (Context c) = Some ?v"
    using assms(1) by (rule EncodeVector_Some)
  have ser: "Serialize c = Some (?ids @ ?v)"
    by (simp add: Serialize_def v Concat_def)
  have "unat (of_nat (KDF c) :: byte) = KDF c" "unat (of_nat (MAC c) :: byte) = MAC c"
       "unat (of_nat (Hash c) :: byte) = Hash c"
    using assms(2-4) by (simp_all add: unat_byte_of_nat)
  then have des: "DeserializeConfiguration (?ids @ ?v) = Inr c"
    using Deserialize_ids_vector [OF v, of "OPRF c" "of_nat (KDF c)" "of_nat (MAC c)"
        "of_nat (Hash c)" "KSF c" "AKE c"]
    by simp
  from v ser des DeserializeConfiguration_short show ?thesis
    by blast
qed

theorem Serialize_Deserialize_roundtrip_witness:
  "Serialize \<lparr>Context = bytes_of ''ctx'', KDF = 7, MAC = 7, Hash = 7, OPRF = 1, KSF = 2, AKE = 1\<rparr>
     = Some [1, 7, 7, 7, 2, 1, 0, 3, 99, 116, 120]
   \<and> DeserializeConfiguration [1, 7, 7, 7, 2, 1, 0, 3, 99, 116, 120]
     = Inr \<lparr>Context = bytes_of ''ctx'', KDF = 7, MAC = 7, Hash = 7, OPRF = 1, KSF = 2, AKE = 1\<rparr>"
  using Serialize_Deserialize_roundtrip
    [of "\<lparr>Context = bytes_of ''ctx'', KDF = 7, MAC = 7, Hash = 7, OPRF = 1, KSF = 2, AKE = 1\<rparr>"]
  by (simp add: bytes_of_def be_bytes_2)

text \<open>
  C9. For a configuration whose MAC identifier is available, the fake envelope is a
  string of zero bytes of length \<open>Nn + Nm\<close> (\<open>NonceLength\<close> is 32 and \<open>Nm\<close> the size of the
  configuration's MAC), which is the \<open>EnvelopeSize\<close> of its internal parameters.
\<close>

theorem GetFakeEnvelope_zero_filled:
  assumes "hash_Available prim (MAC c)"
  shows "\<exists>e. GetFakeEnvelope prim c = Inr e
           \<and> length e = NonceLength + hash_Size prim (MAC c)
           \<and> NonceLength = 32
           \<and> (\<forall>b \<in> set e. b = 0)
           \<and> (\<forall>ip. toInternal prim c = Inr ip \<longrightarrow> length e = EnvelopeSize ip)"
  using assms
  by (auto simp: GetFakeEnvelope_def toInternal_def Let_def NonceLength_def split: option.splits)

theorem GetFakeEnvelope_zero_filled_witness:
  "hash_Available sample_primitives (MAC (DefaultConfiguration\<lparr> MAC := SHA256 \<rparr>))
   \<and> GetFakeEnvelope sample_primitives (DefaultConfiguration\<lparr> MAC := SHA256 \<rparr>)
       = Inr (replicate 64 0)"
  using GetFakeEnvelope_zero_filled [of sample_primitives "DefaultConfiguration\<lparr> MAC := SHA256 \<rparr>"]
  by (simp add: GetFakeEnvelope_def sample_primitives_def DefaultConfiguration_def SHA256_def
        NonceLength_def)

text \<open>
  C10. \<open>DeserializeConfiguration\<close> validates no identifier: on every input of at least
  8 bytes whose bytes from position 6 on decode as a length-prefixed vector it succeeds,
  and the six identifier fields of the result are the first six input bytes as they are.
  An unregistered identifier is reported only by \<open>verify\<close>, through \<open>toInternal\<close>.
\<close>

theorem DeserializeConfiguration_no_validation:
  assumes "8 \<le> length b" and "DecodeVector (drop 6 b) = Inr (ctx, off)"
  shows "\<exists>c. DeserializeConfiguration b = Inr c
           \<and> Context c = ctx
           \<and> OPRF c = b ! 0 \<and> KDF c = unat (b ! 1) \<and> MAC c = unat (b ! 2)
           \<and> Hash c = unat (b ! 3) \<and> KSF c = b ! 4 \<and> AKE c = b ! 5
           \<and> [OPRF c, of_nat (KDF c), of_nat (MAC c), of_nat (Hash c), KSF c, AKE c] = take 6 b
           \<and> (\<forall>err. verify prim c = Some err \<longrightarrow> toInternal prim c = Inl err)"
proof -
  have t: "take 6 b = [b ! 0, b ! 1, b ! 2, b ! 3, b ! 4, b ! 5]"
  proof -
    obtain x0 x1 x2 x3 x4 x5 r where "b = x0 # x1 # x2 # x3 # x4 # x5 # r"
      using assms(1) by (auto simp: Suc_le_length_iff eval_nat_numeral)
    then show ?thesis by simp
  qed
  have d: "DeserializeConfiguration b =
             Inr \<lparr> Context = ctx, KDF = unat (b ! 1), MAC = unat (b ! 2), Hash = unat (b ! 3),
                   OPRF = b ! 0, KSF = b ! 4, AKE = b ! 5 \<rparr>"
    using assms by (simp add: DeserializeConfiguration_def confLength_def)
  show ?thesis
    unfolding d t by (simp add: toInternal_rejected)
qed

theorem DeserializeConfiguration_no_validation_witness:
  "DeserializeConfiguration [255, 254, 253, 252, 251, 250, 0, 1, 9, 9]
     = Inr \<lparr> Context = [9], KDF = 254, MAC = 253, Hash = 252, OPRF = 255, KSF = 251, AKE = 250 \<rparr>
   \<and> verify sample_primitives
       \<lparr> Context = [9], KDF = 254, MAC = 253, Hash = 252, OPRF = 255, KSF = 251, AKE = 250 \<rparr>
     = Some errInvalidKDFid"
  using DeserializeConfiguration_no_validation
    [of "[255, 254, 253, 252, 251, 250, 0, 1, 9, 9]" "[9]" 3 sample_primitives]
  by (simp add: DecodeVector_def OS2IP_def DeserializeConfiguration_def confLength_def
        verify_def sample_primitives_def SHA256_def SHA384_def SHA512_def)

section \<open>Message deserializers\<close>

lemma slice_Some:
  "lo \<le> hi \<Longrightarrow> hi \<le> length xs \<Longrightarrow> slice xs lo hi = Some (take (hi - lo) (drop lo xs))"
  by (simp add: slice_def)

lemma take_drop_chain:
  "a' = a + n \<Longrightarrow> take n (drop a b) @ drop a' b = drop a b"
  by (metis add.commute append_take_drop_id drop_drop)

lemma exact_length_parseI:
  assumes "r = (if length b = L then Inr m0 else Inl errInvalidMessageLength)"
    and "length b = L \<Longrightarrow> layout m0 = b"
  shows "exact_length_parse r b L layout"
  using assms by (auto simp: exact_length_parse_def)

lemma DeserializeRegistrationRequest_eq:
  "DeserializeRegistrationRequest p b =
     (if length b = OPRFPointLength p then Inr \<lparr> rq_Data = b \<rparr> else Inl errInvalidMessageLength)"
  by (simp add: DeserializeRegistrationRequest_def)

lemma DeserializeKE3_eq:
  "DeserializeKE3 prim p b =
     (if length b = hash_Size prim (p_MAC p) then Inr \<lparr> ke3_Mac = b \<rparr>
      else Inl errInvalidMessageLength)"
  by (simp add: DeserializeKE3_def)

lemma DeserializeRegistrationResponse_eq:
  "DeserializeRegistrationResponse p b =
     (if length b = OPRFPointLength p + AkePointLength p
      then Inr \<lparr> rs_Data = take (OPRFPointLength p) b, rs_Pks = drop (OPRFPointLength p) b \<rparr>
      else Inl errInvalidMessageLength)"
  by (simp add: DeserializeRegistrationResponse_def slice_Some or_panic_def)

lemma DeserializeRegistrationRecord_eq:
  "DeserializeRegistrationRecord prim p b =
     (if length b = AkePointLength p + hash_Size prim (p_Hash p) + EnvelopeSize p
      then Inr \<lparr> PublicKey = take (AkePointLength p) b,
                 MaskingKey = take (hash_Size prim (p_Hash p)) (drop (AkePointLength p) b),
                 Envelope = drop (AkePointLength p + hash_Size prim (p_Hash p)) b \<rparr>
      else Inl errInvalidMessageLength)"
  by (simp add: DeserializeRegistrationRecord_def slice_Some or_panic_def)

lemma DeserializeKE1_eq:
  "DeserializeKE1 p b =
     (if length b = OPRFPointLength p + NonceLen p + AkePointLength p
      then Inr \<lparr> ke1_CredentialRequest = \<lparr> creq_Data = take (OPRFPointLength p) b \<rparr>,
                 NonceU = take (NonceLen p) (drop (OPRFPointLength p) b),
                 EpkU = drop (OPRFPointLength p + NonceLen p) b \<rparr>
      else Inl errInvalidMessageLength)"
  by (simp add: DeserializeKE1_def deserializeCredentialRequest_def slice_Some or_panic_def)

lemma DeserializeKE2_eq:
  "DeserializeKE2 prim p b =
     (if length b = OPRFPointLength p + NonceLen p + (AkePointLength p + EnvelopeSize p)
                     + NonceLen p + AkePointLength p + hash_Size prim (p_MAC p)
      then Inr \<lparr> ke2_CredentialResponse =
                   \<lparr> cresp_Data = take (OPRFPointLength p) b,
                     MaskingNonce = take (NonceLen p) (drop (OPRFPointLength p) b),
                     MaskedResponse = take (AkePointLength p + EnvelopeSize p)
                                        (drop (OPRFPointLength p + NonceLen p) b) \<rparr>,
                 NonceS = take (NonceLen p)
                            (drop (OPRFPointLength p + NonceLen p + AkePointLength p
                                     + EnvelopeSize p) b),
                 EpkS = take (AkePointLength p)
                          (drop (OPRFPointLength p + NonceLen p + AkePointLength p
                                   + EnvelopeSize p + NonceLen p) b),
                 ke2_Mac = drop (OPRFPointLength p + NonceLen p + AkePointLength p
                                   + EnvelopeSize p + NonceLen p + AkePointLength p) b \<rparr>
      else Inl errInvalidMessageLength)"
  by (simp add: DeserializeKE2_def deserializeCredentialResponse_def slice_Some or_panic_def
        Let_def add.assoc)

lemma RegistrationRequest_exact:
  "exact_length_parse (DeserializeRegistrationRequest p b) b (OPRFPointLength p) rq_Data"
  by (rule exact_length_parseI [OF DeserializeRegistrationRequest_eq]) simp

lemma RegistrationResponse_exact:
  "exact_length_parse (DeserializeRegistrationResponse p b) b
     (OPRFPointLength p + AkePointLength p) bytes_RegistrationResponse"
  by (rule exact_length_parseI [OF DeserializeRegistrationResponse_eq])
     (simp add: bytes_RegistrationResponse_def)

lemma RegistrationRecord_exact:
  "exact_length_parse (DeserializeRegistrationRecord prim p b) b
     (AkePointLength p + hash_Size prim (p_Hash p) + EnvelopeSize p) bytes_RegistrationRecord"
  by (rule exact_length_parseI [OF DeserializeRegistrationRecord_eq])
     (simp add: bytes_RegistrationRecord_def take_drop_chain)

lemma KE1_exact:
  "exact_length_parse (DeserializeKE1 p b) b
     (OPRFPointLength p + NonceLen p + AkePointLength p) bytes_KE1"
  by (rule exact_length_parseI [OF DeserializeKE1_eq])
     (simp add: bytes_KE1_def take_drop_chain)

lemma KE2_exact:
  "exact_length_parse (DeserializeKE2 prim p b) b
     (OPRFPointLength p + NonceLen p + (AkePointLength p + EnvelopeSize p)
        + NonceLen p + AkePointLength p + hash_Size prim (p_MAC p)) bytes_KE2"
  by (rule exact_length_parseI [OF DeserializeKE2_eq])
     (simp add: bytes_KE2_def take_drop_chain)

lemma KE3_exact:
  "exact_length_parse (DeserializeKE3 prim p b) b (hash_Size prim (p_MAC p)) ke3_Mac"
  by (rule exact_length_parseI [OF DeserializeKE3_eq]) simp

text \<open>
  C3. For all parameters and every input \<open>b\<close>, each of the six deserializers succeeds
  if and only if the length of \<open>b\<close> is the total length of its message (\<open>Np\<close>;
  \<open>Np + Np\<close>; \<open>Np + Nh + Ne\<close>; \<open>Np + Nn + Np\<close>; \<open>Np + Nn + (Np + Ne) + Nn + Np + Nm\<close>;
  \<open>Nm\<close>), returns \<open>errInvalidMessageLength\<close> otherwise, and the fields of a parsed
  message, in wire order, are all of \<open>b\<close>: no prefix of a longer input is parsed.
\<close>

theorem deserializers_exact_length:
  "exact_length_parse (DeserializeRegistrationRequest p b) b (OPRFPointLength p) rq_Data
   \<and> exact_length_parse (DeserializeRegistrationResponse p b) b
        (OPRFPointLength p + AkePointLength p) bytes_RegistrationResponse
   \<and> exact_length_parse (DeserializeRegistrationRecord prim p b) b
        (AkePointLength p + hash_Size prim (p_Hash p) + EnvelopeSize p) bytes_RegistrationRecord
   \<and> exact_length_parse (DeserializeKE1 p b) b
        (OPRFPointLength p + NonceLen p + AkePointLength p) bytes_KE1
   \<and> exact_length_parse (DeserializeKE2 prim p b) b
        (OPRFPointLength p + NonceLen p + (AkePointLength p + EnvelopeSize p)
           + NonceLen p + AkePointLength p + hash_Size prim (p_MAC p)) bytes_KE2
   \<and> exact_length_parse (DeserializeKE3 prim p b) b (hash_Size prim (p_MAC p)) ke3_Mac"
  by (intro conjI RegistrationRequest_exact RegistrationResponse_exact RegistrationRecord_exact
        KE1_exact KE2_exact KE3_exact)

theorem deserializers_exact_length_witness:
  "DeserializeKE1 small_Parameters [1, 2, 3]
     = Inr \<lparr> ke1_CredentialRequest = \<lparr> creq_Data = [1] \<rparr>, NonceU = [2], EpkU = [3] \<rparr>
   \<and> DeserializeKE1 small_Parameters [1, 2, 3, 4] = Inl errInvalidMessageLength
   \<and> DeserializeKE1 small_Parameters [1, 2] = Inl errInvalidMessageLength
   \<and> DeserializeKE2 small_primitives small_Parameters [1, 2, 3, 4, 5, 6, 7, 8, 9, 10]
     = Inr \<lparr> ke2_CredentialResponse =
               \<lparr> cresp_Data = [1], MaskingNonce = [2], MaskedResponse = [3, 4, 5, 6] \<rparr>,
             NonceS = [7], EpkS = [8], ke2_Mac = [9, 10] \<rparr>
   \<and> DeserializeKE2 small_primitives small_Parameters [1, 2, 3, 4, 5, 6, 7, 8, 9, 10, 11]
     = Inl errInvalidMessageLength"
  using deserializers_exact_length [of small_Parameters "[1, 2, 3]" small_primitives]
    deserializers_exact_length [of small_Parameters "[1, 2, 3, 4]" small_primitives]
  by (simp add: DeserializeKE1_eq DeserializeKE2_eq small_Parameters_def small_primitives_def
        sample_primitives_def)

section \<open>Masking of the credential response\<close>

lemma map2_xor_involution:
  "length a = length b \<Longrightarrow> map2 (XOR) a (map2 (XOR) a b) = b"
proof (induction a b rule: list_induct2)
  case Nil
  then show ?case by simp
next
  case (Cons x xs y ys)
  have "x XOR (x XOR y) = y"
    by (metis xor.assoc xor_self_eq xor.left_neutral)
  with Cons show ?case by simp
qed

lemma Xor_Some: "length a = length b \<Longrightarrow> Xor a b = Some (map2 (XOR) a b)"
  by (simp add: Xor_def)

lemma Xor_involution:
  assumes "length a = length b"
  shows "Xor a (map2 (XOR) a b) = Some b"
proof -
  have "length a = length (map2 (XOR) a b)"
    using assms by simp
  then have "Xor a (map2 (XOR) a b) = Some (map2 (XOR) a (map2 (XOR) a b))"
    by (rule Xor_Some)
  then show ?thesis
    using assms by (simp only: map2_xor_involution)
qed

text \<open>
  C2. For every masking key \<open>k\<close>, nonce \<open>n\<close> and input \<open>m\<close> of length \<open>Np + Ne\<close>, when
  \<open>Expand\<close> returns the \<open>Np + Ne\<close> bytes asked of it, \<open>MaskResponse\<close> is the XOR of \<open>m\<close>
  with the pad \<open>Expand(k, n || "CredentialResponsePad", Np + Ne)\<close>; masking the result
  again with the same \<open>k\<close> and \<open>n\<close> returns \<open>m\<close>; and a client with the same key, expand
  function and lengths recovers from the masked response the first \<open>Np\<close> bytes of \<open>m\<close>
  (pks) and the rest (the envelope).
\<close>

theorem MaskResponse_self_inverse:
  fixes cl :: "('env, 'ke3, 'err) Client"
  assumes m: "length m = PointLength prim (p_Group p) + EnvelopeSize p"
    and pad: "length (kdf_Expand prim (p_KDF p) k (n @ bytes_of ''CredentialResponsePad'')
                 (PointLength prim (p_Group p) + EnvelopeSize p))
              = PointLength prim (p_Group p) + EnvelopeSize p"
  shows "\<exists>c. MaskResponse prim p k n m = Some c
           \<and> c = map2 (XOR) (kdf_Expand prim (p_KDF p) k (n @ bytes_of ''CredentialResponsePad'')
                               (PointLength prim (p_Group p) + EnvelopeSize p)) m
           \<and> length c = length m
           \<and> MaskResponse prim p k n c = Some m
           \<and> (Core_Expand cl = kdf_Expand prim (p_KDF p)
                \<and> Ake_PointLength cl = PointLength prim (p_Group p)
                \<and> envelope_EnvelopeSize cl = EnvelopeSize p
              \<longrightarrow> unmaskResponse cl k \<lparr> cresp_Data = d, MaskingNonce = n, MaskedResponse = c \<rparr>
                    = Some (take (PointLength prim (p_Group p)) m,
                            drop (PointLength prim (p_Group p)) m))"
proof -
  let ?L = "PointLength prim (p_Group p) + EnvelopeSize p"
  let ?pad = "kdf_Expand prim (p_KDF p) k (n @ bytes_of ''CredentialResponsePad'') ?L"
  let ?c = "map2 (XOR) ?pad m"
  have eq: "length ?pad = length m"
    using m pad by simp
  have mask: "MaskResponse prim p k n x = Xor ?pad x" for x
    by (simp add: MaskResponse_def SuffixString_def CredentialResponsePad_def)
  have c: "Xor ?pad m = Some ?c"
    using eq by (rule Xor_Some)
  have len: "length ?c = length m"
    using eq by simp
  have unm: "Xor ?pad ?c = Some m"
    using eq by (rule Xor_involution)
  have client: "unmaskResponse cl k \<lparr> cresp_Data = d, MaskingNonce = n, MaskedResponse = ?c \<rparr>
                    = Some (take (PointLength prim (p_Group p)) m,
                            drop (PointLength prim (p_Group p)) m)"
    if "Core_Expand cl = kdf_Expand prim (p_KDF p)"
       "Ake_PointLength cl = PointLength prim (p_Group p)"
       "envelope_EnvelopeSize cl = EnvelopeSize p"
    using that unm m by (simp add: unmaskResponse_def slice_Some)
  show ?thesis
    using c len unm client by (simp add: mask)
qed

theorem MaskResponse_self_inverse_witness:
  "MaskResponse small_primitives small_Parameters [1, 2] [3] [10, 20, 30, 40]
     = Some [18, 12, 6, 48]
   \<and> MaskResponse small_primitives small_Parameters [1, 2] [3] [18, 12, 6, 48]
     = Some [10, 20, 30, 40]
   \<and> unmaskResponse sample_Client [1, 2]
       \<lparr> cresp_Data = [5], MaskingNonce = [3], MaskedResponse = [18, 12, 6, 48] \<rparr>
     = Some ([10], [20, 30, 40])"
  using MaskResponse_self_inverse
    [of "[10, 20, 30, 40]" small_primitives small_Parameters "[1, 2]" "[3]" sample_Client "[5]"]
  by (simp add: small_primitives_def sample_primitives_def small_Parameters_def
        sample_Client_def bytes_of_def eval_nat_numeral)

section \<open>The 3DH input keying material\<close>

text \<open>
  C5. For every server secret key, ephemeral scalar \<open>esk_s\<close> and public keys \<open>epk_u\<close>,
  \<open>pkc\<close> that decode, the server's input keying material is the concatenation
  \<open>(esk_s . epk_u) || (sks . epk_u) || (esk_s . pkc)\<close> of the three encoded products, in
  this order; when every encoding has \<open>Np\<close> bytes it has \<open>3 * Np\<close> bytes.
\<close>

theorem serverK3dh_ikm:
  assumes "Scalar_Decode G sk = Inr sks"
    and "Element_Decode G epku = Inr epk_u"
    and "Element_Decode G pku = Inr pkc"
  shows "serverK3dh G esk_s sk epku pku =
           Inr (Bytes G (Mult G epk_u esk_s) @ Bytes G (Mult G epk_u sks)
                  @ Bytes G (Mult G pkc esk_s))
         \<and> ((\<forall>P. length (Bytes G P) = Np) \<longrightarrow>
              (\<exists>ikm. serverK3dh G esk_s sk epku pku = Inr ikm \<and> length ikm = 3 * Np))"
  using assms by (simp add: serverK3dh_def)

theorem serverK3dh_ikm_witness:
  "Scalar_Decode toy_group [5] = Inr 5
   \<and> Element_Decode toy_group [7] = Inr 7
   \<and> Element_Decode toy_group [11] = Inr 11
   \<and> serverK3dh toy_group 3 [5] [7] [11] = Inr [21, 35, 33]
   \<and> serverK3dh toy_group 3 [0] [7] [11] = Inl (sk_error ())"
  using serverK3dh_ikm [of toy_group "[5]" 5 "[7]" 7 "[11]" 11 3 1]
  by (simp add: toy_group_def toy_decode_def serverK3dh_def)

section \<open>The key schedule\<close>

lemma hkdfExpandLabel_info:
  "hkdfExpandLabel h prk context label L = HKDFExpand h prk (bytes_of (''OPAQUE'' @ label)) L"
  by (simp add: hkdfExpandLabel_def hkdfExpand_def buildLabel_def labelPrefix_def)

lemma spec_info_server_mac:
  "spec_Expand_Label_info ''server mac'' [] 32
     = Some ([0, 32, 0, 17] @ bytes_of ''OPAQUE-server mac'' @ [0, 0])"
  by (simp add: spec_Expand_Label_info_def I2OSP_def EncodeVector_def bytes_of_def be_bytes_2)

lemma deriveSecret_ignores_transcript:
  "deriveSecret h secret t1 label = deriveSecret h secret t2 label"
  by (simp add: deriveSecret_def hkdfExpandLabel_info)

lemma macKeys_info:
  "macKeys h hs = (HKDFExpand h hs (bytes_of ''OPAQUEserver mac'') (OutputSize h),
                   HKDFExpand h hs (bytes_of ''OPAQUEclient mac'') (OutputSize h))"
  by (simp add: macKeys_def hkdfExpandLabel_info tagMacServer_def tagMacClient_def)

text \<open>
  C1 on the code. \<open>hkdfExpandLabel\<close> passes to HKDF-Expand the info string
  \<open>"OPAQUE" || label\<close> alone: neither the two-byte length nor the context enter it, the
  label is not vector-encoded and the prefix has no dash. With an expand function that
  returns its info string, the derivation of the server MAC key shows \<open>"OPAQUEserver mac"\<close>
  where the specification's formula gives
  \<open>I2OSP(32,2) || EncodeVector("OPAQUE-server mac") || EncodeVector("")\<close>.
\<close>

theorem hkdfExpandLabel_info_is_prefixed_label_only:
  "hkdfExpandLabel h prk context label L = HKDFExpand h prk (bytes_of (''OPAQUE'' @ label)) L
   \<and> macKeys h hs = (HKDFExpand h hs (bytes_of ''OPAQUEserver mac'') (OutputSize h),
                      HKDFExpand h hs (bytes_of ''OPAQUEclient mac'') (OutputSize h))
   \<and> deriveSecret h secret t1 label = deriveSecret h secret t2 label
   \<and> hkdfExpandLabel \<lparr> HKDFExpand = (\<lambda>secret info' len. info'), Hash_0 = (\<lambda>x. x),
                        OutputSize = 32 \<rparr> [1] [] ''server mac'' 32
       = bytes_of ''OPAQUEserver mac''
   \<and> spec_HKDF_Expand_Label \<lparr> HKDFExpand = (\<lambda>secret info' len. info'), Hash_0 = (\<lambda>x. x),
                               OutputSize = 32 \<rparr> [1] ''server mac'' [] 32
       = Some ([0, 32, 0, 17] @ bytes_of ''OPAQUE-server mac'' @ [0, 0])
   \<and> bytes_of ''OPAQUEserver mac'' \<noteq> [0, 32, 0, 17] @ bytes_of ''OPAQUE-server mac'' @ [0, 0]"
proof (intro conjI)
  show "hkdfExpandLabel h prk context label L
          = HKDFExpand h prk (bytes_of (''OPAQUE'' @ label)) L"
    by (rule hkdfExpandLabel_info)
  show "macKeys h hs = (HKDFExpand h hs (bytes_of ''OPAQUEserver mac'') (OutputSize h),
                        HKDFExpand h hs (bytes_of ''OPAQUEclient mac'') (OutputSize h))"
    by (rule macKeys_info)
  show "deriveSecret h secret t1 label = deriveSecret h secret t2 label"
    by (rule deriveSecret_ignores_transcript)
  show "hkdfExpandLabel \<lparr> HKDFExpand = (\<lambda>secret info' len. info'), Hash_0 = (\<lambda>x. x),
                          OutputSize = 32 \<rparr> [1] [] ''server mac'' 32
          = bytes_of ''OPAQUEserver mac''"
    by (simp add: hkdfExpandLabel_info)
  show "spec_HKDF_Expand_Label \<lparr> HKDFExpand = (\<lambda>secret info' len. info'), Hash_0 = (\<lambda>x. x),
                                 OutputSize = 32 \<rparr> [1] ''server mac'' [] 32
          = Some ([0, 32, 0, 17] @ bytes_of ''OPAQUE-server mac'' @ [0, 0])"
    by (simp add: spec_HKDF_Expand_Label_def spec_info_server_mac)
  show "bytes_of ''OPAQUEserver mac'' \<noteq> [0, 32, 0, 17] @ bytes_of ''OPAQUE-server mac'' @ [0, 0]"
    by (simp add: bytes_of_def)
qed

section \<open>The retry loop of DeriveKey\<close>

lemma unat_byte_le_255: "unat (c :: 8 word) \<le> 255"
  using unsigned_less [of c, where 'a = nat] by simp

text \<open>
  Whatever the loop returns is a non-zero scalar: the scalar it was entered with or a
  value of \<open>HashToScalar\<close>. The branch \<open>counter > 255\<close> is never taken, since a \<open>uint8\<close>
  is at most 255.
\<close>

lemma DeriveKey_loop_result:
  assumes "DeriveKey_loop G c deriveInput dst s counter = Some y"
  shows "\<exists>x. y = Inr x \<and> \<not> IsZero G x
           \<and> (s = Some x \<or> (\<exists>k. x = HashToScalar G c (Concat deriveInput [k]) dst))"
  using assms
proof (induction rule: DeriveKey_loop.raw_induct [rotated, consumes 1, case_names step])
  case (step loop G c deriveInput dst s counter y)
  show ?case
  proof (cases "case s of None \<Rightarrow> True | Some x \<Rightarrow> IsZero G x")
    case True
    with step(2) unat_byte_le_255 [of counter]
    have "loop G c deriveInput dst
            (Some (HashToScalar G c (Concat deriveInput [counter]) dst)) (counter + 1) = Some y"
      by simp
    from step(1) [OF this] show ?thesis
      by blast
  next
    case False
    then obtain x where "s = Some x" "\<not> IsZero G x"
      by (cases s) auto
    with step(2) show ?thesis
      by auto
  qed
qed

lemma DeriveKey_loop_never_panics:
  "DeriveKey_loop G c deriveInput dst s counter \<noteq> Some (Inl DeriveKeyPairError)"
  using DeriveKey_loop_result [of G c deriveInput dst s counter "Inl DeriveKeyPairError"]
  by auto

lemma DeriveKey_loop_all_zero:
  assumes "\<And>input d. IsZero G (HashToScalar G c input d)"
  shows "DeriveKey_loop G c deriveInput dst None counter = None"
proof (cases "DeriveKey_loop G c deriveInput dst None counter")
  case None
  then show ?thesis .
next
  case (Some y)
  from DeriveKey_loop_result [OF this] assms show ?thesis
    by auto
qed

text \<open>
  The loop does return when some try gives a non-zero scalar: the first such try, after
  \<open>k\<close> zero scalars, is the result, and the counter byte of each try is one more than
  the last.
\<close>

lemma DeriveKey_loop_retries:
  assumes "case s of None \<Rightarrow> True | Some x \<Rightarrow> IsZero G x"
    and "\<And>j. j < k \<Longrightarrow> IsZero G (HashToScalar G c (Concat deriveInput [counter + of_nat j]) dst)"
    and "\<not> IsZero G (HashToScalar G c (Concat deriveInput [counter + of_nat k]) dst)"
  shows "DeriveKey_loop G c deriveInput dst s counter
           = Some (Inr (HashToScalar G c (Concat deriveInput [counter + of_nat k]) dst))"
  using assms
proof (induction k arbitrary: s counter)
  case 0
  then show ?case
    using unat_byte_le_255 [of counter]
    by (subst DeriveKey_loop.simps, simp, subst DeriveKey_loop.simps, simp)
next
  case (Suc k)
  let ?s' = "Some (HashToScalar G c (Concat deriveInput [counter]) dst)"
  have z: "IsZero G (HashToScalar G c (Concat deriveInput [counter]) dst)"
    using Suc.prems(2) [of 0] by simp
  have step: "DeriveKey_loop G c deriveInput dst s counter
                = DeriveKey_loop G c deriveInput dst ?s' (counter + 1)"
    using Suc.prems(1) unat_byte_le_255 [of counter]
    by (subst DeriveKey_loop.simps) simp
  have "DeriveKey_loop G c deriveInput dst ?s' (counter + 1)
          = Some (Inr (HashToScalar G c (Concat deriveInput [counter + 1 + of_nat k]) dst))"
  proof (rule Suc.IH)
    show "case ?s' of None \<Rightarrow> True | Some x \<Rightarrow> IsZero G x"
      using z by simp
  next
    fix j
    assume "j < k"
    then have "IsZero G (HashToScalar G c (Concat deriveInput [counter + of_nat (Suc j)]) dst)"
      using Suc.prems(2) [of "Suc j"] by simp
    then show "IsZero G (HashToScalar G c (Concat deriveInput [counter + 1 + of_nat j]) dst)"
      by (simp add: ac_simps)
  next
    show "\<not> IsZero G (HashToScalar G c (Concat deriveInput [counter + 1 + of_nat k]) dst)"
      using Suc.prems(3) by (simp add: ac_simps)
  qed
  with step show ?case
    by (simp add: ac_simps)
qed

lemma contextString_Some:
  "contextString c = Some (bytes_of tag_OPRF @ [0] @ be_bytes (unat c) 2)"
proof -
  have "unat c < 256 ^ 2"
    using unat_byte_le_255 [of c] by simp
  then show ?thesis
    by (simp add: contextString_def I2OSP_def base_def Concat3_def)
qed

text \<open>
  C4 on the code. The loop never panics with \<open>DeriveKeyPairError\<close>, whatever the group:
  the counter is a \<open>uint8\<close>, so \<open>counter > 255\<close> is false and \<open>counter++\<close> wraps from 255
  to 0. With a \<open>HashToScalar\<close> that yields the zero scalar on every input, \<open>DeriveKey\<close>
  does not return (the value \<open>None\<close>).
\<close>

theorem DeriveKey_never_panics_and_may_not_return:
  "DeriveKey_loop G c deriveInput dst s counter \<noteq> Some (Inl DeriveKeyPairError)
   \<and> DeriveKey zero_scalar_ops RistrettoSha512 [] [] = None"
proof
  show "DeriveKey_loop G c deriveInput dst s counter \<noteq> Some (Inl DeriveKeyPairError)"
    by (rule DeriveKey_loop_never_panics)
next
  have "DeriveKey_loop zero_scalar_ops RistrettoSha512 d1 d2 None 0 = None" for d1 d2
    by (rule DeriveKey_loop_all_zero) (simp add: zero_scalar_ops_def)
  then show "DeriveKey zero_scalar_ops RistrettoSha512 [] [] = None"
    by (simp add: DeriveKey_def contextString_Some EncodeVector_def I2OSP_def Let_def)
qed

section \<open>Identities\<close>

lemma Fill_identities:
  assumes "enc_Encode cresp = Some encCresp"
  shows "\<exists>m'. Fill enc_Encode m creds cresp pku = Some m'
           \<and> (UserID creds = None \<and> IDu m = None \<longrightarrow> IDu m' = pku)
           \<and> (ServerID creds = None \<and> IDs m = None \<longrightarrow> IDs m' = ServerPublicKey creds)
           \<and> (EnvelopeMode creds = CustomIdentifier \<and> UserID creds = None \<longrightarrow> IDu m' = pku)
           \<and> (EnvelopeMode creds = CustomIdentifier \<and> ServerID creds = None
                \<longrightarrow> IDs m' = ServerPublicKey creds)"
  using assms by (auto simp: Fill_def Let_def)

lemma AuthenticationFinalize_identities:
  assumes "length (MaskedResponse (ke2_CredentialResponse ke2))
             = Ake_PointLength cl + envelope_EnvelopeSize cl"
    and "OprfFinalize cl (cresp_Data (ke2_CredentialResponse ke2)) = Inr unblinded"
    and "unmaskResponse cl
           (Core_Expand cl (BuildPRK cl unblinded) (bytes_of ''MaskingKey'') (Core_Hash_Size cl))
           (ke2_CredentialResponse ke2) = Some (pks, e)"
    and "DeserializeEnvelope cl e = Inr env"
    and "RecoverSecret cl idc ids pks (BuildPRK cl unblinded) env = Inr (skc, pkc, exportKey)"
  shows "AuthenticationFinalize cl idc ids ke2 =
           (case Ake_Finalize cl (case idc of None \<Rightarrow> pkc | Some i \<Rightarrow> i) skc
                   (case ids of None \<Rightarrow> pks | Some i \<Rightarrow> i) pks (Ke1 cl) ke2 of
              Inl err \<Rightarrow> Inl (err_from err)
            | Inr ke3 \<Rightarrow> Inr (ke3, exportKey))"
  using assms by (simp add: AuthenticationFinalize_def Let_def)

lemma envelope_MAC_input_default:
  "envelope_MAC_input nonce pks pkc None None
     = envelope_MAC_input nonce pks pkc (Some pkc) (Some pks)"
  by (simp add: envelope_MAC_input_def cleartext_creds_def)

lemma sample_unmask:
  "unmaskResponse sample_Client
     (Core_Expand sample_Client (BuildPRK sample_Client [5]) (bytes_of ''MaskingKey'')
        (Core_Hash_Size sample_Client))
     (ke2_CredentialResponse sample_KE2) = Some ([10], [20, 30, 40])"
  by (simp add: unmaskResponse_def sample_Client_def sample_KE2_def Xor_def slice_def
        bytes_of_def eval_nat_numeral small_primitives_def sample_primitives_def)

text \<open>
  C6. Server: when \<open>Fill\<close> does not panic, a client identity that is nil (in the
  credentials and in the metadata filled) leaves \<open>IDu = pku\<close>, and a nil server identity
  leaves \<open>IDs\<close> the server public key; \<open>DeriveKeys\<close> reads both fields for the transcript
  info. Client: when the steps before it succeed, \<open>AuthenticationFinalize\<close>
  calls \<open>Ake.Finalize\<close> with \<open>pkc\<close> in place of a nil \<open>idc\<close> and \<open>pks\<close> in place of a nil
  \<open>ids\<close>. Envelope (as the specification words it): the MAC input with absent identities
  is the MAC input with the identities \<open>pkc\<close> and \<open>pks\<close>.
\<close>

theorem identities_default_to_public_keys:
  assumes "enc_Encode cresp = Some encCresp"
    and "length (MaskedResponse (ke2_CredentialResponse ke2))
           = Ake_PointLength cl + envelope_EnvelopeSize cl"
    and "OprfFinalize cl (cresp_Data (ke2_CredentialResponse ke2)) = Inr unblinded"
    and "unmaskResponse cl
           (Core_Expand cl (BuildPRK cl unblinded) (bytes_of ''MaskingKey'') (Core_Hash_Size cl))
           (ke2_CredentialResponse ke2) = Some (pks, e)"
    and "DeserializeEnvelope cl e = Inr env"
    and "RecoverSecret cl idc ids pks (BuildPRK cl unblinded) env = Inr (skc, pkc, exportKey)"
  shows "(\<exists>m'. Fill enc_Encode m creds cresp pku = Some m'
            \<and> (UserID creds = None \<and> IDu m = None \<longrightarrow> IDu m' = pku)
            \<and> (ServerID creds = None \<and> IDs m = None \<longrightarrow> IDs m' = ServerPublicKey creds)
            \<and> (EnvelopeMode creds = CustomIdentifier \<and> UserID creds = None \<longrightarrow> IDu m' = pku)
            \<and> (EnvelopeMode creds = CustomIdentifier \<and> ServerID creds = None
                 \<longrightarrow> IDs m' = ServerPublicKey creds))
         \<and> AuthenticationFinalize cl idc ids ke2 =
             (case Ake_Finalize cl (case idc of None \<Rightarrow> pkc | Some i \<Rightarrow> i) skc
                     (case ids of None \<Rightarrow> pks | Some i \<Rightarrow> i) pks (Ke1 cl) ke2 of
                Inl err \<Rightarrow> Inl (err_from err)
              | Inr ke3 \<Rightarrow> Inr (ke3, exportKey))
         \<and> envelope_MAC_input nonce pks pkc None None
             = envelope_MAC_input nonce pks pkc (Some pkc) (Some pks)"
proof -
  have server: "\<exists>m'. Fill enc_Encode m creds cresp pku = Some m'
            \<and> (UserID creds = None \<and> IDu m = None \<longrightarrow> IDu m' = pku)
            \<and> (ServerID creds = None \<and> IDs m = None \<longrightarrow> IDs m' = ServerPublicKey creds)
            \<and> (EnvelopeMode creds = CustomIdentifier \<and> UserID creds = None \<longrightarrow> IDu m' = pku)
            \<and> (EnvelopeMode creds = CustomIdentifier \<and> ServerID creds = None
                 \<longrightarrow> IDs m' = ServerPublicKey creds)"
    using assms(1) by (rule Fill_identities)
  have client: "AuthenticationFinalize cl idc ids ke2 =
             (case Ake_Finalize cl (case idc of None \<Rightarrow> pkc | Some i \<Rightarrow> i) skc
                     (case ids of None \<Rightarrow> pks | Some i \<Rightarrow> i) pks (Ke1 cl) ke2 of
                Inl err \<Rightarrow> Inl (err_from err)
              | Inr ke3 \<Rightarrow> Inr (ke3, exportKey))"
    using assms(2-6) by (rule AuthenticationFinalize_identities)
  show ?thesis
    using server client envelope_MAC_input_default [of nonce pks pkc]
    by (intro conjI)
qed

theorem identities_default_to_public_keys_witness:
  "(\<exists>m'. Fill (\<lambda>c. Some [1]) empty_Metadata sample_Credentials
            (ke2_CredentialResponse sample_KE2) (Some [8]) = Some m'
          \<and> IDu m' = Some [8] \<and> IDs m' = Some [9])
   \<and> AuthenticationFinalize sample_Client None None sample_KE2 = Inr (([8], [10]), [9])"
  using identities_default_to_public_keys
    [where enc_Encode = "\<lambda>c. Some [1]" and cresp = "ke2_CredentialResponse sample_KE2"
       and encCresp = "[1]" and ?ke2.0 = sample_KE2 and cl = sample_Client and unblinded = "[5]"
       and pks = "[10]" and e = "[20, 30, 40]" and env = "[20, 30, 40]"
       and idc = None and ids = None and skc = "[7]" and pkc = "[8]" and exportKey = "[9]"
       and m = empty_Metadata and creds = sample_Credentials and pku = "Some [8]"
       and nonce = "[]"]
    sample_unmask
  by (auto simp: sample_Client_def sample_KE2_def sample_Credentials_def empty_Metadata_def)

end
